theory Spec2Isabelle
  imports Main "HOL-Library.Word"
begin

section \<open>JavaScript values used by the two route handlers\<close>

text \<open>
  A JavaScript string is a sequence of UTF-16 code units; \<open>length\<close>, \<open>slice\<close> and
  \<open>trim\<close> all work on code units. Strings that come from the request (query
  parameters, the origin, the e-mail address) are therefore lists of 16-bit words.
  String literals of the source (thrown messages, response bodies, paths, header
  names) stay HOL strings; \<open>utf16\<close> turns an ASCII literal into code units where the
  source compares a literal with request data.
\<close>

type_synonym js_string = "16 word list"

definition utf16 :: "string \<Rightarrow> js_string" where
  "utf16 s = map of_char s"

text \<open>
  Truthiness of a value of type \<open>string | null | undefined\<close>: \<open>null\<close>, \<open>undefined\<close>
  and the empty string are falsy, every other string is truthy.
\<close>

definition truthy :: "js_string option \<Rightarrow> bool" where
  "truthy v = (case v of None \<Rightarrow> False | Some s \<Rightarrow> s \<noteq> [])"

text \<open>
  \<open>String.prototype.trim\<close> removes WhiteSpace and LineTerminator code points from both
  ends (ECMAScript, sections 12.2 and 12.3). All of them lie in the Basic Multilingual
  Plane, so each is one code unit.
\<close>

definition is_whitespace :: "16 word \<Rightarrow> bool" where
  "is_whitespace c \<longleftrightarrow>
     c \<in> {0x0009, 0x000A, 0x000B, 0x000C, 0x000D, 0x0020, 0x00A0, 0x1680,
          0x2000, 0x2001, 0x2002, 0x2003, 0x2004, 0x2005, 0x2006, 0x2007,
          0x2008, 0x2009, 0x200A, 0x2028, 0x2029, 0x202F, 0x205F, 0x3000, 0xFEFF}"

definition trim :: "js_string \<Rightarrow> js_string" where
  "trim s = rev (dropWhile is_whitespace (rev (dropWhile is_whitespace s)))"

text \<open>\<open>s.slice(b, e)\<close> for non-negative integer arguments; both ends are clamped.\<close>

definition slice :: "js_string \<Rightarrow> nat \<Rightarrow> nat \<Rightarrow> js_string" where
  "slice s b e = drop b (take e s)"

section \<open>Requests and responses\<close>

text \<open>
  Both loaders start with \<open>new URL(request.url)\<close> and read \<open>searchParams\<close> (and, for
  the image route, \<open>origin\<close>). The \<open>url\<close> of a Fetch \<open>Request\<close> is always a valid
  absolute URL, so the request is modelled by the parsed URL: its origin and its
  decoded query parameters in document order. \<open>URLSearchParams.get\<close> returns the
  value of the first pair with the given name, or \<open>null\<close>.
\<close>

record request =
  origin :: js_string
  searchParams :: "(js_string \<times> js_string) list"

definition searchParams_get :: "(js_string \<times> js_string) list \<Rightarrow> string \<Rightarrow> js_string option" where
  "searchParams_get ps name = map_of ps (utf16 name)"

text \<open>
  A response body is empty, a text, a byte sequence, or a stream that produces its
  bytes only when the body is read: \<open>Stream (Inr bs)\<close> delivers \<open>bs\<close>,
  \<open>Stream (Inl e)\<close> fails with \<open>e\<close> at that moment, after the response itself has
  been handed over.
\<close>

datatype body = Empty | Text string | Bytes "8 word list" | Stream "string + 8 word list"

record response =
  status :: nat
  headers :: "(string \<times> string) list"
  body :: body

text \<open>
  \<open>redirect(url)\<close> of react-router: a response with status 302 and a \<open>Location\<close>
  header. \<open>href\<close> of a route pattern without parameters is the pattern itself.
\<close>

definition redirect :: "string \<Rightarrow> response" where
  "redirect url = \<lparr>status = 302, headers = [(''Location'', url)], body = Empty\<rparr>"

definition href :: "string \<Rightarrow> string" where
  "href path = path"

section \<open>The newsletter verification loader\<close>

text \<open>
  The loader imports \<open>verifySignedToken\<close> from \<open>@/lib/token\<close> and \<open>resend\<close> from
  \<open>@/lib/resend.server\<close>; they are parameters of the model. A call either returns or
  throws (\<open>Inl\<close> carries the thrown value). A Resend call returns an object
  \<open>{ data, error }\<close> whose fields are objects or \<open>null\<close>; an object is truthy.
\<close>

record contact_args =
  email :: js_string
  audienceId :: string

record 'd resend_result =
  data :: "'d option"
  error :: "string option"

record contact =
  contact_id :: js_string
  contact_email :: js_string

record services =
  verifySignedToken :: "js_string \<Rightarrow> string + js_string option"
  contacts_get :: "contact_args \<Rightarrow> string + contact resend_result"
  contacts_create :: "contact_args \<Rightarrow> string + js_string resend_result"

text \<open>
  What a handler does besides returning: the calls it makes to its collaborators and
  the lines it writes with \<open>console.error\<close>, in order.
\<close>

datatype jsx =
    Div string "jsx list"
  | Span string "(string \<times> string) list" js_string

record font =
  font_name :: string
  font_data :: "8 word list"
  font_style :: string
  font_weight :: nat

datatype event =
    VerifySignedToken js_string
  | ContactsGet contact_args
  | ContactsCreate contact_args
  | NewImageResponse jsx "font list"
  | ConsoleError string string

definition audience :: string where
  "audience = ''1a231b09-a625-43c1-9cc2-5d8f34972bdb''"

text \<open>
  The body of the \<open>try\<close> block. \<open>Inl e\<close>: the block threw \<open>e\<close>; \<open>Inr (Some r)\<close>: it
  executed \<open>return r\<close>; \<open>Inr None\<close>: it ran to its end.
\<close>

definition verification_try :: "services \<Rightarrow> js_string \<Rightarrow> (string + response option) \<times> event list" where
  "verification_try sv em =
    (let args = \<lparr>email = em, audienceId = audience\<rparr> in
     case contacts_get sv args of
       Inl e \<Rightarrow> (Inl e, [ContactsGet args])
     | Inr got \<Rightarrow>
        (if data got \<noteq> None
         then (Inr (Some (redirect (href ''/newsletter/confirmation'' @ ''?alreadySubscribed=true''))),
               [ContactsGet args])
         else
          (case contacts_create sv args of
             Inl e \<Rightarrow> (Inl e, [ContactsGet args, ContactsCreate args])
           | Inr created \<Rightarrow>
              (case error created of
                 Some err \<Rightarrow>
                   (Inl ''Error adding contact'',
                    [ContactsGet args, ContactsCreate args, ConsoleError ''Error adding contact:'' err])
               | None \<Rightarrow> (Inr None, [ContactsGet args, ContactsCreate args])))))"

text \<open>
  The loader: \<open>Inl\<close> is the value it throws (the promise rejects with), \<open>Inr\<close> the
  response it returns.
\<close>

definition loader_verification :: "services \<Rightarrow> request \<Rightarrow> (string + response) \<times> event list" where
  "loader_verification sv request =
    (let token = searchParams_get (searchParams request) ''token'' in
     case token of
       None \<Rightarrow> (Inl ''No token provided'', [])
     | Some tok \<Rightarrow>
        if \<not> truthy token then (Inl ''No token provided'', [])
        else
         (case verifySignedToken sv tok of
            Inl e \<Rightarrow> (Inl e, [VerifySignedToken tok])
          | Inr verified \<Rightarrow>
             (case verified of
                None \<Rightarrow> (Inl ''Wrong token'', [VerifySignedToken tok])
              | Some em \<Rightarrow>
                 if \<not> truthy verified then (Inl ''Wrong token'', [VerifySignedToken tok])
                 else
                  (case verification_try sv em of
                     (Inl e, evs) \<Rightarrow>
                       (Inl ''Error verifying token'',
                        VerifySignedToken tok # evs @ [ConsoleError ''Error verifying token:'' e])
                   | (Inr (Some r), evs) \<Rightarrow> (Inr r, VerifySignedToken tok # evs)
                   | (Inr None, evs) \<Rightarrow>
                       (Inr (redirect (href ''/newsletter/confirmation'')),
                        VerifySignedToken tok # evs)))))"

definition create_calls :: "event list \<Rightarrow> contact_args list" where
  "create_calls evs = concat (map (\<lambda>ev. case ev of ContactsCreate a \<Rightarrow> [a] | _ \<Rightarrow> []) evs)"

definition is_redirect :: "string + response \<Rightarrow> bool" where
  "is_redirect r = (case r of Inl _ \<Rightarrow> False | Inr resp \<Rightarrow> status resp = 302)"

subsection \<open>Concrete requests and collaborators\<close>

definition token_request :: "string \<Rightarrow> request" where
  "token_request t = \<lparr>origin = utf16 ''https://example.org'', searchParams = [(utf16 ''token'', utf16 t)]\<rparr>"

definition bare_request :: request where
  "bare_request = \<lparr>origin = utf16 ''https://example.org'', searchParams = []\<rparr>"

definition ada :: js_string where
  "ada = utf16 ''ada@example.org''"

definition ada_args :: contact_args where
  "ada_args = \<lparr>email = ada, audienceId = audience\<rparr>"

definition found :: "contact resend_result" where
  "found = \<lparr>data = Some \<lparr>contact_id = utf16 ''c-1'', contact_email = ada\<rparr>, error = None\<rparr>"

definition not_found :: "contact resend_result" where
  "not_found = \<lparr>data = None, error = Some ''not_found''\<rparr>"

definition created :: "js_string resend_result" where
  "created = \<lparr>data = Some (utf16 ''c-2''), error = None\<rparr>"

definition create_failed :: "js_string resend_result" where
  "create_failed = \<lparr>data = None, error = Some ''validation_error''\<rparr>"

text \<open>
  Collaborators with fixed answers: the token \<open>signed\<close> verifies with outcome \<open>v\<close>,
  every other token is rejected; the lookup answers \<open>g\<close>, the creation \<open>c\<close>.
\<close>

definition fixed_services ::
  "(string + js_string option) \<Rightarrow> (string + contact resend_result) \<Rightarrow>
   (string + js_string resend_result) \<Rightarrow> services" where
  "fixed_services v g c =
    \<lparr>verifySignedToken = (\<lambda>t. if t = utf16 ''signed'' then v else Inr None),
     contacts_get = (\<lambda>_. g),
     contacts_create = (\<lambda>_. c)\<rparr>"

section \<open>The social preview image loader\<close>

text \<open>
  The two font files and the \<open>ImageResponse\<close> constructor of \<open>@vercel/og\<close> are
  imported by the route; they are parameters of the model. A call of the constructor
  either returns a response or throws while the \<open>try\<close> block is running.
\<close>

record og_env =
  InterLatin400 :: "8 word list"
  InterLatin700 :: "8 word list"
  ImageResponse :: "jsx \<Rightarrow> font list \<Rightarrow> string + response"

text \<open>The element tree handed to \<open>ImageResponse\<close>: Tailwind classes, inline style, text.\<close>

definition og_markup :: "js_string \<Rightarrow> js_string \<Rightarrow> js_string \<Rightarrow> jsx" where
  "og_markup orig title description =
    Div ''flex h-full w-full flex-col justify-end bg-neutral-900 text-neutral-100''
      [Span ''absolute top-10 left-12 text-3xl text-neutral-400'' [] orig,
       Div ''flex w-full flex-col p-12 pb-10''
         [Span ''mb-4 max-w-2xl text-6xl font-bold'' [(''lineHeight'', ''1.15'')] title,
          Span ''max-w-4xl text-3xl leading-normal font-normal text-neutral-400''
            [(''lineHeight'', ''1.35'')] description]]"

definition og_fonts :: "og_env \<Rightarrow> font list" where
  "og_fonts env =
    [\<lparr>font_name = ''Inter'', font_data = InterLatin400 env, font_style = ''normal'', font_weight = 400\<rparr>,
     \<lparr>font_name = ''Inter'', font_data = InterLatin700 env, font_style = ''normal'', font_weight = 700\<rparr>]"

definition bad_request :: response where
  "bad_request =
    \<lparr>status = 400, headers = [(''Content-Type'', ''text/plain'')],
     body = Text ''Missing title or description''\<rparr>"

definition internal_server_error :: response where
  "internal_server_error =
    \<lparr>status = 500, headers = [(''Content-Type'', ''text/plain'')],
     body = Text ''Internal server error''\<rparr>"

text \<open>
  The body of the \<open>try\<close> block: \<open>Inl e\<close> when it throws \<open>e\<close>, \<open>Inr r\<close> when it returns
  \<open>r\<close>. After the guard \<open>!title || !description\<close> both values are strings; the last
  alternative of the case below is never reached.
\<close>

definition og_try :: "og_env \<Rightarrow> request \<Rightarrow> (string + response) \<times> event list" where
  "og_try env request =
    (let title = map_option (\<lambda>s. slice (trim s) 0 70)
                   (searchParams_get (searchParams request) ''title'');
         description = map_option (\<lambda>s. slice (trim s) 0 200)
                   (searchParams_get (searchParams request) ''description'')
     in if \<not> truthy title \<or> \<not> truthy description then (Inr bad_request, [])
        else
         (case (title, description) of
            (Some t, Some d) \<Rightarrow>
              (let element = og_markup (origin request) t d in
               (ImageResponse env element (og_fonts env),
                [NewImageResponse element (og_fonts env)]))
          | _ \<Rightarrow> (Inr bad_request, [])))"

definition loader_og :: "og_env \<Rightarrow> request \<Rightarrow> (string + response) \<times> event list" where
  "loader_og env request =
    (case og_try env request of
       (Inr r, evs) \<Rightarrow> (Inr r, evs)
     | (Inl e, evs) \<Rightarrow>
         (Inr internal_server_error, evs @ [ConsoleError ''OG Image generation error:'' e]))"

definition render_calls :: "event list \<Rightarrow> jsx list" where
  "render_calls evs = concat (map (\<lambda>ev. case ev of NewImageResponse el _ \<Rightarrow> [el] | _ \<Rightarrow> []) evs)"

subsection \<open>Concrete image requests and renderers\<close>

definition og_request :: "(js_string \<times> js_string) list \<Rightarrow> request" where
  "og_request ps = \<lparr>origin = utf16 ''https://example.org'', searchParams = ps\<rparr>"

definition png :: response where
  "png = \<lparr>status = 200, headers = [(''Content-Type'', ''image/png'')],
          body = Bytes [0x89, 0x50, 0x4E, 0x47]\<rparr>"

definition fixed_env :: "(string + response) \<Rightarrow> og_env" where
  "fixed_env r = \<lparr>InterLatin400 = [0, 1, 0, 0], InterLatin700 = [0, 1, 0, 0],
                  ImageResponse = (\<lambda>_ _. r)\<rparr>"

text \<open>
  The constructor as \<open>@vercel/og\<close> implements it: it wraps the renderer in a
  \<open>ReadableStream\<close> and returns at once a response with status 200 and content type
  \<open>image/png\<close> (its cache header is left out). The renderer runs only when the body
  is read, and a value it throws becomes a failure of the stream; the constructor
  itself does not throw. The renderer is a parameter: the PNG bytes, or what it throws.
\<close>

definition vercel_ImageResponse ::
  "(jsx \<Rightarrow> font list \<Rightarrow> string + 8 word list) \<Rightarrow> jsx \<Rightarrow> font list \<Rightarrow> string + response" where
  "vercel_ImageResponse render element fonts =
    Inr \<lparr>status = 200, headers = [(''content-type'', ''image/png'')],
         body = Stream (render element fonts)\<rparr>"

definition vercel_env :: "(jsx \<Rightarrow> font list \<Rightarrow> string + 8 word list) \<Rightarrow> og_env" where
  "vercel_env render = \<lparr>InterLatin400 = [0, 1, 0, 0], InterLatin700 = [0, 1, 0, 0],
                        ImageResponse = vercel_ImageResponse render\<rparr>"

text \<open>A renderer that rejects the font data it is given.\<close>

definition rejects_font :: "jsx \<Rightarrow> font list \<Rightarrow> string + 8 word list" where
  "rejects_font element fonts = Inl ''Error: Unsupported OpenType signature''"

definition preview_request :: "js_string \<Rightarrow> js_string \<Rightarrow> request" where
  "preview_request t d = og_request [(utf16 ''title'', t), (utf16 ''description'', d)]"

text \<open>The letter a followed by seventy spaces: 71 code units.\<close>

definition padded_title :: js_string where
  "padded_title = 0x61 # replicate 70 0x20"

text \<open>Sixty-nine letters a, a space, the letter b: 71 code units.\<close>

definition cut_title :: js_string where
  "cut_title = replicate 69 0x61 @ [0x20, 0x62]"

definition long_title :: js_string where
  "long_title = replicate 71 0x61"

definition long_description :: js_string where
  "long_description = replicate 201 0x64"

section \<open>Properties of the verification loader\<close>

text \<open>
  Once the token is present, non-empty and verified to a non-empty e-mail address, the
  outcome of the loader is decided by the \<open>try\<close> block alone.
\<close>

lemma loader_verification_verified:
  assumes "searchParams_get (searchParams request) ''token'' = Some tok" and "tok \<noteq> []"
    and "verifySignedToken sv tok = Inr (Some em)" and "em \<noteq> []"
  shows "loader_verification sv request =
    (case verification_try sv em of
       (Inl e, evs) \<Rightarrow>
         (Inl ''Error verifying token'',
          VerifySignedToken tok # evs @ [ConsoleError ''Error verifying token:'' e])
     | (Inr (Some r), evs) \<Rightarrow> (Inr r, VerifySignedToken tok # evs)
     | (Inr None, evs) \<Rightarrow>
         (Inr (redirect (href ''/newsletter/confirmation'')), VerifySignedToken tok # evs))"
  using assms by (simp add: loader_verification_def truthy_def)

lemma signed_token_param:
  "searchParams_get (searchParams (token_request ''signed'')) ''token'' = Some (utf16 ''signed'')"
  by (simp add: token_request_def searchParams_get_def)

lemma signed_nonempty: "utf16 ''signed'' \<noteq> []"
  by (simp add: utf16_def)

lemma ada_nonempty: "ada \<noteq> []"
  by (simp add: ada_def utf16_def)

lemma fixed_services_simps:
  "verifySignedToken (fixed_services v g c) (utf16 ''signed'') = v"
  "verifySignedToken (fixed_services v g c) [] = Inr None"
  "contacts_get (fixed_services v g c) a = g"
  "contacts_create (fixed_services v g c) a = c"
  by (simp_all add: fixed_services_def utf16_def)

text \<open>
  C1, as stated, fails: when the creation call reports an error the loader has made its
  one creation call but throws instead of redirecting.
\<close>

theorem C1_counterexample:
  "searchParams_get (searchParams (token_request ''signed'')) ''token'' = Some (utf16 ''signed'') \<and>
   verifySignedToken (fixed_services (Inr (Some ada)) (Inr not_found) (Inr create_failed))
     (utf16 ''signed'') = Inr (Some ada) \<and>
   contacts_get (fixed_services (Inr (Some ada)) (Inr not_found) (Inr create_failed)) ada_args
     = Inr not_found \<and>
   data not_found = None \<and>
   fst (loader_verification (fixed_services (Inr (Some ada)) (Inr not_found) (Inr create_failed))
         (token_request ''signed'')) = Inl ''Error verifying token'' \<and>
   \<not> is_redirect (fst (loader_verification
         (fixed_services (Inr (Some ada)) (Inr not_found) (Inr create_failed))
         (token_request ''signed'')))"
  by (simp add: loader_verification_verified [OF signed_token_param signed_nonempty _ ada_nonempty]
      signed_token_param fixed_services_simps verification_try_def Let_def not_found_def
      create_failed_def is_redirect_def ada_args_def)

text \<open>
  C1 (amended). For a request whose token verifies to an e-mail address for which the
  lookup reports no contact, the loader makes exactly one creation call, with that
  address and the fixed audience; and when that call returns without an error, the
  loader returns the redirect to the confirmation path without the
  \<open>alreadySubscribed\<close> flag.
\<close>

theorem C1_new_contact_created_once:
  assumes "searchParams_get (searchParams request) ''token'' = Some tok" and "tok \<noteq> []"
    and "verifySignedToken sv tok = Inr (Some em)" and "em \<noteq> []"
    and "contacts_get sv \<lparr>email = em, audienceId = audience\<rparr> = Inr got" and "data got = None"
  shows "create_calls (snd (loader_verification sv request)) = [\<lparr>email = em, audienceId = audience\<rparr>] \<and>
    (\<forall>made. contacts_create sv \<lparr>email = em, audienceId = audience\<rparr> = Inr made \<and> error made = None \<longrightarrow>
       loader_verification sv request =
         (Inr (redirect ''/newsletter/confirmation''),
          [VerifySignedToken tok,
           ContactsGet \<lparr>email = em, audienceId = audience\<rparr>,
           ContactsCreate \<lparr>email = em, audienceId = audience\<rparr>]))"
proof -
  note run = loader_verification_verified [OF assms(1-4)]
  have calls: "create_calls (snd (loader_verification sv request)) = [\<lparr>email = em, audienceId = audience\<rparr>]"
    using assms(5,6)
    by (cases "contacts_create sv \<lparr>email = em, audienceId = audience\<rparr>")
       (simp_all add: run verification_try_def Let_def create_calls_def split: option.splits)
  have ok: "loader_verification sv request =
         (Inr (redirect ''/newsletter/confirmation''),
          [VerifySignedToken tok,
           ContactsGet \<lparr>email = em, audienceId = audience\<rparr>,
           ContactsCreate \<lparr>email = em, audienceId = audience\<rparr>])"
    if "contacts_create sv \<lparr>email = em, audienceId = audience\<rparr> = Inr made" and "error made = None"
    for made
    using assms(5,6) that by (simp add: run verification_try_def Let_def href_def)
  from calls ok show ?thesis by blast
qed

theorem C1_new_contact_created_once_witness:
  "searchParams_get (searchParams (token_request ''signed'')) ''token'' = Some (utf16 ''signed'') \<and>
   utf16 ''signed'' \<noteq> [] \<and>
   verifySignedToken (fixed_services (Inr (Some ada)) (Inr not_found) (Inr created))
     (utf16 ''signed'') = Inr (Some ada) \<and>
   ada \<noteq> [] \<and>
   contacts_get (fixed_services (Inr (Some ada)) (Inr not_found) (Inr created))
     \<lparr>email = ada, audienceId = audience\<rparr> = Inr not_found \<and>
   data not_found = None \<and>
   contacts_create (fixed_services (Inr (Some ada)) (Inr not_found) (Inr created))
     \<lparr>email = ada, audienceId = audience\<rparr> = Inr created \<and>
   error created = None \<and>
   create_calls (snd (loader_verification (fixed_services (Inr (Some ada)) (Inr not_found) (Inr created))
     (token_request ''signed''))) = [\<lparr>email = ada, audienceId = audience\<rparr>] \<and>
   loader_verification (fixed_services (Inr (Some ada)) (Inr not_found) (Inr created))
     (token_request ''signed'') =
       (Inr (redirect ''/newsletter/confirmation''),
        [VerifySignedToken (utf16 ''signed''),
         ContactsGet \<lparr>email = ada, audienceId = audience\<rparr>,
         ContactsCreate \<lparr>email = ada, audienceId = audience\<rparr>])"
proof -
  have nf: "data not_found = None" and cr: "error created = None"
    by (simp_all add: not_found_def created_def)
  from C1_new_contact_created_once
         [of "token_request ''signed''" "utf16 ''signed''"
             "fixed_services (Inr (Some ada)) (Inr not_found) (Inr created)" ada not_found,
          OF signed_token_param signed_nonempty _ ada_nonempty _ nf]
  show ?thesis
    using nf cr signed_token_param signed_nonempty ada_nonempty
    by (simp add: fixed_services_simps create_calls_def)
qed

text \<open>
  C2. For a request whose token verifies to an e-mail address for which the lookup
  returns a contact, the loader makes no creation call and returns the redirect to the
  confirmation path followed by \<open>?alreadySubscribed=true\<close>. Verifying an address that
  is already subscribed therefore never creates a second contact.
\<close>

theorem C2_already_subscribed:
  assumes "searchParams_get (searchParams request) ''token'' = Some tok" and "tok \<noteq> []"
    and "verifySignedToken sv tok = Inr (Some em)" and "em \<noteq> []"
    and "contacts_get sv \<lparr>email = em, audienceId = audience\<rparr> = Inr got" and "data got = Some c"
  shows "loader_verification sv request =
           (Inr (redirect ''/newsletter/confirmation?alreadySubscribed=true''),
            [VerifySignedToken tok, ContactsGet \<lparr>email = em, audienceId = audience\<rparr>]) \<and>
         create_calls (snd (loader_verification sv request)) = []"
  using assms(5,6)
  by (simp add: loader_verification_verified [OF assms(1-4)] verification_try_def Let_def
      href_def create_calls_def)

theorem C2_already_subscribed_witness:
  "searchParams_get (searchParams (token_request ''signed'')) ''token'' = Some (utf16 ''signed'') \<and>
   utf16 ''signed'' \<noteq> [] \<and>
   verifySignedToken (fixed_services (Inr (Some ada)) (Inr found) (Inr created))
     (utf16 ''signed'') = Inr (Some ada) \<and>
   ada \<noteq> [] \<and>
   contacts_get (fixed_services (Inr (Some ada)) (Inr found) (Inr created))
     \<lparr>email = ada, audienceId = audience\<rparr> = Inr found \<and>
   data found = Some \<lparr>contact_id = utf16 ''c-1'', contact_email = ada\<rparr> \<and>
   loader_verification (fixed_services (Inr (Some ada)) (Inr found) (Inr created))
     (token_request ''signed'') =
       (Inr (redirect ''/newsletter/confirmation?alreadySubscribed=true''),
        [VerifySignedToken (utf16 ''signed''), ContactsGet \<lparr>email = ada, audienceId = audience\<rparr>]) \<and>
   create_calls (snd (loader_verification (fixed_services (Inr (Some ada)) (Inr found) (Inr created))
     (token_request ''signed''))) = []"
proof -
  have fd: "data found = Some \<lparr>contact_id = utf16 ''c-1'', contact_email = ada\<rparr>"
    by (simp add: found_def)
  from C2_already_subscribed
         [of "token_request ''signed''" "utf16 ''signed''"
             "fixed_services (Inr (Some ada)) (Inr found) (Inr created)" ada found,
          OF signed_token_param signed_nonempty _ ada_nonempty _ fd]
  show ?thesis
    using fd signed_token_param signed_nonempty ada_nonempty
    by (simp add: fixed_services_simps create_calls_def)
qed


text \<open>
  C3, as stated, fails for the first of its three paths: \<open>verifySignedToken\<close> is
  called before the \<open>try\<close> block, so a value it throws leaves the loader unchanged
  and nothing is logged.
\<close>

theorem C3_counterexample:
  "searchParams_get (searchParams (token_request ''signed'')) ''token'' = Some (utf16 ''signed'') \<and>
   verifySignedToken (fixed_services (Inl ''TypeError: bad signature'') (Inr not_found) (Inr created))
     (utf16 ''signed'') = Inl ''TypeError: bad signature'' \<and>
   loader_verification (fixed_services (Inl ''TypeError: bad signature'') (Inr not_found) (Inr created))
     (token_request ''signed'') =
       (Inl ''TypeError: bad signature'', [VerifySignedToken (utf16 ''signed'')]) \<and>
   fst (loader_verification (fixed_services (Inl ''TypeError: bad signature'') (Inr not_found) (Inr created))
     (token_request ''signed'')) \<noteq> Inl ''Error verifying token''"
  by (simp add: signed_token_param fixed_services_simps loader_verification_def truthy_def
      signed_nonempty)

text \<open>
  C3 (amended). For a request whose token verifies to an e-mail address, every failure
  of the contact store --- the lookup throwing, the creation throwing, the creation
  returning an error --- is caught by the one \<open>try\<close>/\<open>catch\<close> and the loader throws
  the same value "Error verifying token" in each case.
\<close>

theorem C3_store_failures_conflated:
  assumes "searchParams_get (searchParams request) ''token'' = Some tok" and "tok \<noteq> []"
    and "verifySignedToken sv tok = Inr (Some em)" and "em \<noteq> []"
    and "contacts_get sv \<lparr>email = em, audienceId = audience\<rparr> = Inl e \<or>
         (\<exists>got. contacts_get sv \<lparr>email = em, audienceId = audience\<rparr> = Inr got \<and> data got = None \<and>
            (contacts_create sv \<lparr>email = em, audienceId = audience\<rparr> = Inl e \<or>
             (\<exists>made. contacts_create sv \<lparr>email = em, audienceId = audience\<rparr> = Inr made \<and>
                error made = Some e)))"
  shows "fst (loader_verification sv request) = Inl ''Error verifying token''"
proof -
  note run = loader_verification_verified [OF assms(1-4)]
  from assms(5) consider
      (lookup) "contacts_get sv \<lparr>email = em, audienceId = audience\<rparr> = Inl e"
    | (create_throws) got where "contacts_get sv \<lparr>email = em, audienceId = audience\<rparr> = Inr got"
        "data got = None" "contacts_create sv \<lparr>email = em, audienceId = audience\<rparr> = Inl e"
    | (create_error) got made where "contacts_get sv \<lparr>email = em, audienceId = audience\<rparr> = Inr got"
        "data got = None" "contacts_create sv \<lparr>email = em, audienceId = audience\<rparr> = Inr made"
        "error made = Some e"
    by blast
  then show ?thesis
  proof cases
    case lookup
    then show ?thesis by (simp add: run verification_try_def Let_def)
  next
    case create_throws
    then show ?thesis by (simp add: run verification_try_def Let_def)
  next
    case create_error
    then show ?thesis by (simp add: run verification_try_def Let_def)
  qed
qed

theorem C3_store_failures_conflated_witness:
  "fst (loader_verification (fixed_services (Inr (Some ada)) (Inl ''fetch failed'') (Inr created))
     (token_request ''signed'')) = Inl ''Error verifying token'' \<and>
   fst (loader_verification (fixed_services (Inr (Some ada)) (Inr not_found) (Inl ''fetch failed''))
     (token_request ''signed'')) = Inl ''Error verifying token'' \<and>
   fst (loader_verification (fixed_services (Inr (Some ada)) (Inr not_found) (Inr create_failed))
     (token_request ''signed'')) = Inl ''Error verifying token''"
proof -
  have nf: "data not_found = None" and cf: "error create_failed = Some ''validation_error''"
    by (simp_all add: not_found_def create_failed_def)
  have a: "fst (loader_verification (fixed_services (Inr (Some ada)) (Inl ''fetch failed'') (Inr created))
     (token_request ''signed'')) = Inl ''Error verifying token''"
    by (rule C3_store_failures_conflated
          [where tok = "utf16 ''signed''" and em = ada and e = "''fetch failed''",
           OF signed_token_param signed_nonempty _ ada_nonempty])
       (simp_all add: fixed_services_simps)
  have b: "fst (loader_verification (fixed_services (Inr (Some ada)) (Inr not_found) (Inl ''fetch failed''))
     (token_request ''signed'')) = Inl ''Error verifying token''"
    by (rule C3_store_failures_conflated
          [where tok = "utf16 ''signed''" and em = ada and e = "''fetch failed''",
           OF signed_token_param signed_nonempty _ ada_nonempty])
       (simp_all add: fixed_services_simps nf)
  have c: "fst (loader_verification (fixed_services (Inr (Some ada)) (Inr not_found) (Inr create_failed))
     (token_request ''signed'')) = Inl ''Error verifying token''"
    by (rule C3_store_failures_conflated
          [where tok = "utf16 ''signed''" and em = ada and e = "''validation_error''",
           OF signed_token_param signed_nonempty _ ada_nonempty])
       (simp_all add: fixed_services_simps nf cf)
  from a b c show ?thesis by blast
qed

text \<open>
  C4, as stated, fails for the empty token: \<open>?token=\<close> carries a \<open>token\<close> parameter that
  the verifier rejects, yet the loader stops at its first guard with
  "No token provided" and never calls the verifier.
\<close>

theorem C4_counterexample:
  "searchParams_get (searchParams (token_request [])) ''token'' = Some [] \<and>
   verifySignedToken (fixed_services (Inr (Some ada)) (Inr not_found) (Inr created)) [] = Inr None \<and>
   loader_verification (fixed_services (Inr (Some ada)) (Inr not_found) (Inr created))
     (token_request []) = (Inl ''No token provided'', [])"
  by (simp add: token_request_def searchParams_get_def utf16_def fixed_services_simps
      loader_verification_def truthy_def)

text \<open>
  C4 (amended). For a request whose \<open>token\<close> parameter is a non-empty string on which
  \<open>verifySignedToken\<close> returns no e-mail address (\<open>null\<close>, or the empty string), the
  loader throws "Wrong token": it returns no redirect, and the contact store is never
  called.
\<close>

theorem C4_wrong_token:
  assumes "searchParams_get (searchParams request) ''token'' = Some tok" and "tok \<noteq> []"
    and "verifySignedToken sv tok = Inr verified" and "\<not> truthy verified"
  shows "loader_verification sv request = (Inl ''Wrong token'', [VerifySignedToken tok]) \<and>
         \<not> is_redirect (fst (loader_verification sv request))"
  using assms
  by (simp add: loader_verification_def truthy_def is_redirect_def split: option.splits)

theorem C4_wrong_token_witness:
  "searchParams_get (searchParams (token_request ''signed'')) ''token'' = Some (utf16 ''signed'') \<and>
   utf16 ''signed'' \<noteq> [] \<and>
   verifySignedToken (fixed_services (Inr None) (Inr not_found) (Inr created)) (utf16 ''signed'')
     = Inr None \<and>
   \<not> truthy None \<and>
   loader_verification (fixed_services (Inr None) (Inr not_found) (Inr created))
     (token_request ''signed'') = (Inl ''Wrong token'', [VerifySignedToken (utf16 ''signed'')]) \<and>
   \<not> is_redirect (fst (loader_verification (fixed_services (Inr None) (Inr not_found) (Inr created))
     (token_request ''signed'')))"
proof -
  have falsy: "\<not> truthy None"
    by (simp add: truthy_def)
  from C4_wrong_token
         [of "token_request ''signed''" "utf16 ''signed''"
             "fixed_services (Inr None) (Inr not_found) (Inr created)" None,
          OF signed_token_param signed_nonempty _ falsy]
  show ?thesis
    using falsy signed_token_param signed_nonempty
    by (simp add: fixed_services_simps is_redirect_def)
qed

text \<open>
  C6. For a request whose token verifies to an e-mail address for which the lookup
  reports no contact, and where the creation call returns an error, the loader logs the
  error, logs the caught failure and throws; it returns no redirect.
\<close>

theorem C6_creation_error_is_fatal:
  assumes "searchParams_get (searchParams request) ''token'' = Some tok" and "tok \<noteq> []"
    and "verifySignedToken sv tok = Inr (Some em)" and "em \<noteq> []"
    and "contacts_get sv \<lparr>email = em, audienceId = audience\<rparr> = Inr got" and "data got = None"
    and "contacts_create sv \<lparr>email = em, audienceId = audience\<rparr> = Inr made"
    and "error made = Some err"
  shows "loader_verification sv request =
           (Inl ''Error verifying token'',
            [VerifySignedToken tok,
             ContactsGet \<lparr>email = em, audienceId = audience\<rparr>,
             ContactsCreate \<lparr>email = em, audienceId = audience\<rparr>,
             ConsoleError ''Error adding contact:'' err,
             ConsoleError ''Error verifying token:'' ''Error adding contact'']) \<and>
         \<not> is_redirect (fst (loader_verification sv request))"
  using assms(5-8)
  by (simp add: loader_verification_verified [OF assms(1-4)] verification_try_def Let_def
      is_redirect_def)

theorem C6_creation_error_is_fatal_witness:
  "searchParams_get (searchParams (token_request ''signed'')) ''token'' = Some (utf16 ''signed'') \<and>
   utf16 ''signed'' \<noteq> [] \<and>
   verifySignedToken (fixed_services (Inr (Some ada)) (Inr not_found) (Inr create_failed))
     (utf16 ''signed'') = Inr (Some ada) \<and>
   ada \<noteq> [] \<and>
   contacts_get (fixed_services (Inr (Some ada)) (Inr not_found) (Inr create_failed))
     \<lparr>email = ada, audienceId = audience\<rparr> = Inr not_found \<and>
   data not_found = None \<and>
   contacts_create (fixed_services (Inr (Some ada)) (Inr not_found) (Inr create_failed))
     \<lparr>email = ada, audienceId = audience\<rparr> = Inr create_failed \<and>
   error create_failed = Some ''validation_error'' \<and>
   loader_verification (fixed_services (Inr (Some ada)) (Inr not_found) (Inr create_failed))
     (token_request ''signed'') =
       (Inl ''Error verifying token'',
        [VerifySignedToken (utf16 ''signed''),
         ContactsGet \<lparr>email = ada, audienceId = audience\<rparr>,
         ContactsCreate \<lparr>email = ada, audienceId = audience\<rparr>,
         ConsoleError ''Error adding contact:'' ''validation_error'',
         ConsoleError ''Error verifying token:'' ''Error adding contact'']) \<and>
   \<not> is_redirect (fst (loader_verification
     (fixed_services (Inr (Some ada)) (Inr not_found) (Inr create_failed)) (token_request ''signed'')))"
proof -
  have nf: "data not_found = None" and cf: "error create_failed = Some ''validation_error''"
    by (simp_all add: not_found_def create_failed_def)
  from C6_creation_error_is_fatal
         [of "token_request ''signed''" "utf16 ''signed''"
             "fixed_services (Inr (Some ada)) (Inr not_found) (Inr create_failed)" ada
             not_found create_failed "''validation_error''",
          OF signed_token_param signed_nonempty _ ada_nonempty _ nf _ cf]
  show ?thesis
    using nf cf signed_token_param signed_nonempty ada_nonempty
    by (simp add: fixed_services_simps is_redirect_def)
qed

text \<open>
  C5. A request without a \<open>token\<close> query parameter fails with "No token provided", and
  the loader has called neither the token verifier nor the contact store.
\<close>

theorem C5_no_token_provided:
  "searchParams_get (searchParams request) ''token'' = None \<Longrightarrow>
   loader_verification sv request = (Inl ''No token provided'', [])"
  by (simp add: loader_verification_def)

theorem C5_no_token_provided_witness:
  "searchParams_get (searchParams bare_request) ''token'' = None \<and>
   loader_verification (fixed_services (Inr (Some ada)) (Inr not_found) (Inr created)) bare_request =
     (Inl ''No token provided'', [])"
  using C5_no_token_provided [of bare_request "fixed_services (Inr (Some ada)) (Inr not_found) (Inr created)"]
  by (simp add: bare_request_def searchParams_get_def)

section \<open>Properties of \<open>trim\<close>\<close>

lemma dropWhile_all_iff: "(\<forall>x\<in>set (dropWhile P xs). P x) \<longleftrightarrow> (\<forall>x\<in>set xs. P x)"
proof
  assume all: "\<forall>x\<in>set (dropWhile P xs). P x"
  have "dropWhile P xs = []"
  proof (rule ccontr)
    assume ne: "dropWhile P xs \<noteq> []"
    then have "\<not> P (hd (dropWhile P xs))" by (rule hd_dropWhile)
    moreover from ne have "hd (dropWhile P xs) \<in> set (dropWhile P xs)" by simp
    ultimately show False using all by blast
  qed
  then show "\<forall>x\<in>set xs. P x" by simp
next
  assume "\<forall>x\<in>set xs. P x"
  then show "\<forall>x\<in>set (dropWhile P xs). P x" by (blast dest: set_dropWhileD)
qed

lemma dropWhile_replicate_append: "P x \<Longrightarrow> dropWhile P (replicate n x @ ys) = dropWhile P ys"
  by (induction n) auto

lemma trim_eq_Nil_iff: "trim s = [] \<longleftrightarrow> (\<forall>c\<in>set s. is_whitespace c)"
  by (simp add: trim_def dropWhile_all_iff)

lemma trim_last: "trim s \<noteq> [] \<Longrightarrow> \<not> is_whitespace (last (trim s))"
  by (simp add: trim_def last_rev hd_dropWhile)

lemma trim_hd:
  assumes "trim s \<noteq> []"
  shows "\<not> is_whitespace (hd (trim s))"
proof -
  define zs where "zs = dropWhile is_whitespace s"
  have "trim s @ rev (takeWhile is_whitespace (rev zs)) =
        rev (takeWhile is_whitespace (rev zs) @ dropWhile is_whitespace (rev zs))"
    by (simp only: trim_def zs_def rev_append)
  also have "\<dots> = zs"
    by simp
  finally have split: "zs = trim s @ rev (takeWhile is_whitespace (rev zs))"
    by simp
  with assms have "zs \<noteq> []" by auto
  then have "\<not> is_whitespace (hd zs)" unfolding zs_def by (rule hd_dropWhile)
  moreover from split assms have "hd zs = hd (trim s)" by (metis hd_append2)
  ultimately show ?thesis by simp
qed

lemma trim_id:
  assumes "s \<noteq> []" and "\<not> is_whitespace (hd s)" and "\<not> is_whitespace (last s)"
  shows "trim s = s"
proof -
  from assms(2) have "dropWhile is_whitespace s = s" by (simp add: dropWhile_eq_self_iff)
  moreover from assms(1,3) have "dropWhile is_whitespace (rev s) = rev s"
    by (simp add: dropWhile_eq_self_iff hd_rev)
  ultimately show ?thesis by (simp add: trim_def)
qed

section \<open>Properties of the image loader\<close>

lemma og_try_present:
  assumes "searchParams_get (searchParams request) ''title'' = Some t"
    and "searchParams_get (searchParams request) ''description'' = Some d"
    and "trim t \<noteq> []" and "trim d \<noteq> []"
  shows "og_try env request =
    (ImageResponse env (og_markup (origin request) (take 70 (trim t)) (take 200 (trim d))) (og_fonts env),
     [NewImageResponse (og_markup (origin request) (take 70 (trim t)) (take 200 (trim d))) (og_fonts env)])"
  using assms by (simp add: og_try_def slice_def truthy_def Let_def)

lemma og_try_blank:
  assumes "searchParams_get (searchParams request) ''title'' = None \<or>
           searchParams_get (searchParams request) ''description'' = None \<or>
           (\<exists>t. searchParams_get (searchParams request) ''title'' = Some t \<and> trim t = []) \<or>
           (\<exists>d. searchParams_get (searchParams request) ''description'' = Some d \<and> trim d = [])"
  shows "og_try env request = (Inr bad_request, [])"
  using assms by (auto simp add: og_try_def slice_def truthy_def Let_def split: option.splits)

lemma render_calls_present:
  assumes "searchParams_get (searchParams request) ''title'' = Some t"
    and "searchParams_get (searchParams request) ''description'' = Some d"
    and "trim t \<noteq> []" and "trim d \<noteq> []"
  shows "render_calls (snd (loader_og env request)) =
    [og_markup (origin request) (take 70 (trim t)) (take 200 (trim d))]"
  by (cases "ImageResponse env (og_markup (origin request) (take 70 (trim t)) (take 200 (trim d)))
        (og_fonts env)")
     (simp_all add: loader_og_def og_try_present [OF assms] render_calls_def)

lemma preview_request_simps:
  "searchParams_get (searchParams (preview_request t d)) ''title'' = Some t"
  "searchParams_get (searchParams (preview_request t d)) ''description'' = Some d"
  "origin (preview_request t d) = utf16 ''https://example.org''"
  by (simp_all add: preview_request_def og_request_def searchParams_get_def utf16_def)

lemma whitespace_samples:
  "is_whitespace 0x20" "\<not> is_whitespace 0x61" "\<not> is_whitespace 0x62" "\<not> is_whitespace 0x64"
  by (simp_all add: is_whitespace_def)

lemma trim_samples:
  "trim padded_title = utf16 ''a''"
  "trim cut_title = cut_title"
  "trim long_title = long_title"
  "trim long_description = long_description"
  "trim (utf16 ''d'') = utf16 ''d''"
proof -
  show "trim padded_title = utf16 ''a''"
    by (simp add: trim_def padded_title_def utf16_def whitespace_samples dropWhile_replicate_append)
  show "trim cut_title = cut_title"
    by (rule trim_id) (simp_all add: cut_title_def hd_append whitespace_samples)
  show "trim long_title = long_title"
    by (rule trim_id) (simp_all add: long_title_def whitespace_samples)
  show "trim long_description = long_description"
    by (rule trim_id) (simp_all add: long_description_def whitespace_samples)
  show "trim (utf16 ''d'') = utf16 ''d''"
    by (rule trim_id) (simp_all add: utf16_def whitespace_samples)
qed

text \<open>
  C8. For a request without a \<open>title\<close> parameter or without a \<open>description\<close> parameter,
  the loader returns status 400 with a plain-text body, and \<open>ImageResponse\<close> is never
  called.
\<close>

theorem C8_missing_parameter:
  assumes "searchParams_get (searchParams request) ''title'' = None \<or>
           searchParams_get (searchParams request) ''description'' = None"
  shows "loader_og env request =
           (Inr \<lparr>status = 400, headers = [(''Content-Type'', ''text/plain'')],
                 body = Text ''Missing title or description''\<rparr>, []) \<and>
         render_calls (snd (loader_og env request)) = []"
proof -
  from assms have "og_try env request = (Inr bad_request, [])"
    by (intro og_try_blank) blast
  then show ?thesis
    by (simp add: loader_og_def bad_request_def render_calls_def)
qed

theorem C8_missing_parameter_witness:
  "searchParams_get (searchParams (og_request [(utf16 ''title'', utf16 ''Hello'')])) ''description'' = None \<and>
   loader_og (fixed_env (Inr png)) (og_request [(utf16 ''title'', utf16 ''Hello'')]) =
     (Inr \<lparr>status = 400, headers = [(''Content-Type'', ''text/plain'')],
           body = Text ''Missing title or description''\<rparr>, []) \<and>
   searchParams_get (searchParams (og_request [(utf16 ''description'', utf16 ''World'')])) ''title'' = None \<and>
   loader_og (fixed_env (Inr png)) (og_request [(utf16 ''description'', utf16 ''World'')]) =
     (Inr \<lparr>status = 400, headers = [(''Content-Type'', ''text/plain'')],
           body = Text ''Missing title or description''\<rparr>, [])"
proof -
  have d: "searchParams_get (searchParams (og_request [(utf16 ''title'', utf16 ''Hello'')])) ''description'' = None"
    by (simp add: og_request_def searchParams_get_def utf16_def)
  have t: "searchParams_get (searchParams (og_request [(utf16 ''description'', utf16 ''World'')])) ''title'' = None"
    by (simp add: og_request_def searchParams_get_def utf16_def)
  from C8_missing_parameter [of "og_request [(utf16 ''title'', utf16 ''Hello'')]" "fixed_env (Inr png)"]
       C8_missing_parameter [of "og_request [(utf16 ''description'', utf16 ''World'')]" "fixed_env (Inr png)"]
       d t
  show ?thesis by blast
qed

text \<open>
  What the \<open>catch\<close> of the image loader covers: a value thrown while the \<open>try\<close>
  block runs is logged and answered with the fixed 500 response; a response that the
  constructor returns is passed on as it is, and nothing is logged.
\<close>

lemma loader_og_constructor_throws:
  assumes "searchParams_get (searchParams request) ''title'' = Some t"
    and "searchParams_get (searchParams request) ''description'' = Some d"
    and "trim t \<noteq> []" and "trim d \<noteq> []"
    and "ImageResponse env (og_markup (origin request) (take 70 (trim t)) (take 200 (trim d)))
           (og_fonts env) = Inl e"
  shows "loader_og env request =
           (Inr \<lparr>status = 500, headers = [(''Content-Type'', ''text/plain'')],
                 body = Text ''Internal server error''\<rparr>,
            [NewImageResponse (og_markup (origin request) (take 70 (trim t)) (take 200 (trim d)))
               (og_fonts env),
             ConsoleError ''OG Image generation error:'' e])"
  using assms(5)
  by (simp add: loader_og_def og_try_present [OF assms(1-4)] internal_server_error_def)

lemma loader_og_constructor_returns:
  assumes "searchParams_get (searchParams request) ''title'' = Some t"
    and "searchParams_get (searchParams request) ''description'' = Some d"
    and "trim t \<noteq> []" and "trim d \<noteq> []"
    and "ImageResponse env (og_markup (origin request) (take 70 (trim t)) (take 200 (trim d)))
           (og_fonts env) = Inr r"
  shows "loader_og env request =
           (Inr r,
            [NewImageResponse (og_markup (origin request) (take 70 (trim t)) (take 200 (trim d)))
               (og_fonts env)])"
  using assms(5)
  by (simp add: loader_og_def og_try_present [OF assms(1-4)])

text \<open>
  C9 asks that a request whose image rendering raises an exception is answered with
  status 500 and a generic plain-text body. The loader returns \<open>new ImageResponse(...)\<close>
  without reading its body, and the constructor of \<open>@vercel/og\<close> renders in the body
  stream: the exception is raised after the loader has returned, outside its
  \<open>try\<close>/\<open>catch\<close>. For the request \<open>?title=Hello&description=World\<close> and a renderer that
  rejects the font data, the loader returns the constructor's response with status 200,
  whose body fails when it is read, and logs nothing.
\<close>

theorem C9_render_failure_escapes_catch:
  "rejects_font (og_markup (utf16 ''https://example.org'') (utf16 ''Hello'') (utf16 ''World''))
     (og_fonts (vercel_env rejects_font)) = Inl ''Error: Unsupported OpenType signature'' \<and>
   loader_og (vercel_env rejects_font) (preview_request (utf16 ''Hello'') (utf16 ''World'')) =
     (Inr \<lparr>status = 200, headers = [(''content-type'', ''image/png'')],
           body = Stream (Inl ''Error: Unsupported OpenType signature'')\<rparr>,
      [NewImageResponse (og_markup (utf16 ''https://example.org'') (utf16 ''Hello'') (utf16 ''World''))
         (og_fonts (vercel_env rejects_font))])"
proof -
  have trimmed: "trim (utf16 ''Hello'') = utf16 ''Hello''" "trim (utf16 ''World'') = utf16 ''World''"
    by (simp_all add: trim_def utf16_def is_whitespace_def)
  have h: "trim (utf16 ''Hello'') \<noteq> []" and w: "trim (utf16 ''World'') \<noteq> []"
    unfolding trimmed by (simp_all add: utf16_def)
  have short: "take 70 (utf16 ''Hello'') = utf16 ''Hello''" "take 200 (utf16 ''World'') = utf16 ''World''"
    by (simp_all add: utf16_def)
  have "og_try (vercel_env rejects_font) (preview_request (utf16 ''Hello'') (utf16 ''World'')) =
     (Inr \<lparr>status = 200, headers = [(''content-type'', ''image/png'')],
           body = Stream (Inl ''Error: Unsupported OpenType signature'')\<rparr>,
      [NewImageResponse (og_markup (utf16 ''https://example.org'') (utf16 ''Hello'') (utf16 ''World''))
         (og_fonts (vercel_env rejects_font))])"
    by (simp add: og_try_present [OF preview_request_simps(1) preview_request_simps(2) h w]
        preview_request_simps(3) trimmed short)
       (simp add: vercel_env_def vercel_ImageResponse_def rejects_font_def)
  then show ?thesis
    by (simp add: loader_og_def rejects_font_def)
qed

text \<open>
  C7, as stated, fails: the parameter is trimmed before it is cut. A title of 71 code
  units, the letter a followed by seventy spaces, is rendered as the single letter a.
\<close>

theorem C7_counterexample:
  "searchParams_get (searchParams (preview_request padded_title (utf16 ''d''))) ''title''
     = Some padded_title \<and>
   length padded_title = 71 \<and>
   render_calls (snd (loader_og (fixed_env (Inr png)) (preview_request padded_title (utf16 ''d'')))) =
     [og_markup (utf16 ''https://example.org'') (utf16 ''a'') (utf16 ''d'')] \<and>
   length (utf16 ''a'') = 1"
proof -
  have t: "trim padded_title \<noteq> []" and d: "trim (utf16 ''d'') \<noteq> []"
    unfolding trim_samples by (simp_all add: utf16_def)
  have "render_calls (snd (loader_og (fixed_env (Inr png)) (preview_request padded_title (utf16 ''d'')))) =
     [og_markup (utf16 ''https://example.org'') (utf16 ''a'') (utf16 ''d'')]"
    by (simp add: render_calls_present [OF preview_request_simps(1) preview_request_simps(2) t d]
        preview_request_simps(3) trim_samples)
       (simp add: utf16_def)
  then show ?thesis
    by (simp add: preview_request_simps(1) padded_title_def utf16_def)
qed

text \<open>
  C7 (amended). When both parameters are present and neither is blank: a title whose
  trimmed value is longer than 70 code units is rendered as exactly the first 70 code
  units of the trimmed value, and a description whose trimmed value is longer than 200
  code units as exactly the first 200 code units of the trimmed value.
\<close>

theorem C7_truncated_after_trim:
  assumes "searchParams_get (searchParams request) ''title'' = Some t"
    and "searchParams_get (searchParams request) ''description'' = Some d"
    and "trim t \<noteq> []" and "trim d \<noteq> []"
  shows "render_calls (snd (loader_og env request)) =
           [og_markup (origin request) (take 70 (trim t)) (take 200 (trim d))] \<and>
         (70 < length (trim t) \<longrightarrow> length (take 70 (trim t)) = 70) \<and>
         (200 < length (trim d) \<longrightarrow> length (take 200 (trim d)) = 200)"
  by (simp add: render_calls_present [OF assms])

theorem C7_truncated_after_trim_witness:
  "searchParams_get (searchParams (preview_request long_title long_description)) ''title''
     = Some long_title \<and>
   searchParams_get (searchParams (preview_request long_title long_description)) ''description''
     = Some long_description \<and>
   trim long_title \<noteq> [] \<and> trim long_description \<noteq> [] \<and>
   70 < length (trim long_title) \<and> 200 < length (trim long_description) \<and>
   render_calls (snd (loader_og (fixed_env (Inr png)) (preview_request long_title long_description))) =
     [og_markup (utf16 ''https://example.org'') (replicate 70 0x61) (replicate 200 0x64)] \<and>
   length (take 70 (trim long_title)) = 70 \<and>
   length (take 200 (trim long_description)) = 200"
proof -
  have t: "trim long_title \<noteq> []" and d: "trim long_description \<noteq> []"
    unfolding trim_samples by (simp_all add: long_title_def long_description_def)
  have lt: "70 < length (trim long_title)" and ld: "200 < length (trim long_description)"
    unfolding trim_samples by (simp_all add: long_title_def long_description_def)
  have cut: "take 70 (trim long_title) = replicate 70 0x61"
    "take 200 (trim long_description) = replicate 200 0x64"
    unfolding trim_samples by (simp_all add: long_title_def long_description_def)
  from C7_truncated_after_trim
         [OF preview_request_simps(1) preview_request_simps(2) t d, of "fixed_env (Inr png)"]
  show ?thesis
    using t d lt ld
    by (simp add: preview_request_simps cut)
qed

text \<open>
  C10, as stated, fails in its last part: truncation comes after trimming, so cutting a
  trimmed title at a space leaves that space at the end of the rendered title. The title
  is sixty-nine letters a, a space and the letter b.
\<close>

theorem C10_counterexample:
  "searchParams_get (searchParams (preview_request cut_title (utf16 ''d''))) ''title'' = Some cut_title \<and>
   render_calls (snd (loader_og (fixed_env (Inr png)) (preview_request cut_title (utf16 ''d'')))) =
     [og_markup (utf16 ''https://example.org'') (replicate 69 0x61 @ [0x20]) (utf16 ''d'')] \<and>
   is_whitespace (last (replicate 69 0x61 @ [0x20]))"
proof -
  have t: "trim cut_title \<noteq> []" and d: "trim (utf16 ''d'') \<noteq> []"
    unfolding trim_samples by (simp_all add: utf16_def cut_title_def)
  have cut: "take 70 cut_title = replicate 69 0x61 @ [0x20]"
    by (simp add: cut_title_def)
  have "render_calls (snd (loader_og (fixed_env (Inr png)) (preview_request cut_title (utf16 ''d'')))) =
     [og_markup (utf16 ''https://example.org'') (replicate 69 0x61 @ [0x20]) (utf16 ''d'')]"
    by (simp add: render_calls_present [OF preview_request_simps(1) preview_request_simps(2) t d]
        preview_request_simps(3) trim_samples cut)
       (simp add: utf16_def)
  then show ?thesis
    by (simp add: preview_request_simps(1) whitespace_samples)
qed

text \<open>
  C10 (amended). Both parameters are trimmed before the presence check and before
  truncation. A parameter that is present but empty or all whitespace yields the 400
  response without rendering. Otherwise the rendered title and description are the first
  70 and 200 code units of the trimmed values: they never start with whitespace, and
  they do not end with whitespace when the trimmed value fits its limit.
\<close>

theorem C10_trim_then_check_then_cut:
  "((searchParams_get (searchParams request) ''title'' = Some t \<and> list_all is_whitespace t) \<or>
    (searchParams_get (searchParams request) ''description'' = Some d \<and> list_all is_whitespace d)
      \<longrightarrow> loader_og env request = (Inr bad_request, []) \<and> status bad_request = 400) \<and>
   (searchParams_get (searchParams request) ''title'' = Some t \<and>
    searchParams_get (searchParams request) ''description'' = Some d \<and>
    \<not> list_all is_whitespace t \<and> \<not> list_all is_whitespace d
      \<longrightarrow> render_calls (snd (loader_og env request)) =
            [og_markup (origin request) (take 70 (trim t)) (take 200 (trim d))] \<and>
          \<not> is_whitespace (hd (take 70 (trim t))) \<and>
          \<not> is_whitespace (hd (take 200 (trim d))) \<and>
          (length (trim t) \<le> 70 \<longrightarrow> \<not> is_whitespace (last (take 70 (trim t)))) \<and>
          (length (trim d) \<le> 200 \<longrightarrow> \<not> is_whitespace (last (take 200 (trim d)))))"
proof (intro conjI impI)
  assume "(searchParams_get (searchParams request) ''title'' = Some t \<and> list_all is_whitespace t) \<or>
    (searchParams_get (searchParams request) ''description'' = Some d \<and> list_all is_whitespace d)"
  then have "og_try env request = (Inr bad_request, [])"
    by (intro og_try_blank) (auto simp: trim_eq_Nil_iff list_all_iff)
  then show "loader_og env request = (Inr bad_request, [])"
    by (simp add: loader_og_def)
next
  show "status bad_request = 400"
    by (simp add: bad_request_def)
next
  assume present: "searchParams_get (searchParams request) ''title'' = Some t \<and>
    searchParams_get (searchParams request) ''description'' = Some d \<and>
    \<not> list_all is_whitespace t \<and> \<not> list_all is_whitespace d"
  then have t: "trim t \<noteq> []" and d: "trim d \<noteq> []"
    by (simp_all add: trim_eq_Nil_iff list_all_iff)
  from present t d show "render_calls (snd (loader_og env request)) =
            [og_markup (origin request) (take 70 (trim t)) (take 200 (trim d))]"
    by (simp add: render_calls_present)
  from t show "\<not> is_whitespace (hd (take 70 (trim t)))"
    by (simp add: trim_hd)
  from d show "\<not> is_whitespace (hd (take 200 (trim d)))"
    by (simp add: trim_hd)
  from t show "\<not> is_whitespace (last (take 70 (trim t)))" if "length (trim t) \<le> 70"
    using that by (simp add: trim_last)
  from d show "\<not> is_whitespace (last (take 200 (trim d)))" if "length (trim d) \<le> 200"
    using that by (simp add: trim_last)
qed

theorem C10_trim_then_check_then_cut_witness:
  "searchParams_get (searchParams (preview_request (utf16 ''  '') (utf16 ''World''))) ''title''
     = Some (utf16 ''  '') \<and>
   list_all is_whitespace (utf16 ''  '') \<and>
   loader_og (fixed_env (Inr png)) (preview_request (utf16 ''  '') (utf16 ''World'')) =
     (Inr bad_request, []) \<and>
   status bad_request = 400 \<and>
   searchParams_get (searchParams (preview_request (utf16 '' Hello '') (utf16 ''World''))) ''title''
     = Some (utf16 '' Hello '') \<and>
   searchParams_get (searchParams (preview_request (utf16 '' Hello '') (utf16 ''World''))) ''description''
     = Some (utf16 ''World'') \<and>
   \<not> list_all is_whitespace (utf16 '' Hello '') \<and>
   \<not> list_all is_whitespace (utf16 ''World'') \<and>
   length (trim (utf16 '' Hello '')) \<le> 70 \<and>
   length (trim (utf16 ''World'')) \<le> 200 \<and>
   render_calls (snd (loader_og (fixed_env (Inr png))
     (preview_request (utf16 '' Hello '') (utf16 ''World'')))) =
     [og_markup (utf16 ''https://example.org'') (utf16 ''Hello'') (utf16 ''World'')] \<and>
   \<not> is_whitespace (hd (utf16 ''Hello'')) \<and> \<not> is_whitespace (last (utf16 ''Hello'')) \<and>
   \<not> is_whitespace (hd (utf16 ''World'')) \<and> \<not> is_whitespace (last (utf16 ''World''))"
proof -
  have blank: "list_all is_whitespace (utf16 ''  '')"
    by (simp add: utf16_def is_whitespace_def)
  have solid: "\<not> list_all is_whitespace (utf16 '' Hello '')" "\<not> list_all is_whitespace (utf16 ''World'')"
    by (simp_all add: utf16_def is_whitespace_def)
  have trimmed: "trim (utf16 '' Hello '') = utf16 ''Hello''" "trim (utf16 ''World'') = utf16 ''World''"
    by (simp_all add: trim_def utf16_def is_whitespace_def)
  have short: "take 70 (utf16 ''Hello'') = utf16 ''Hello''" "take 200 (utf16 ''World'') = utf16 ''World''"
    "length (utf16 ''Hello'') \<le> 70" "length (utf16 ''World'') \<le> 200"
    by (simp_all add: utf16_def)
  from C10_trim_then_check_then_cut
         [of "preview_request (utf16 ''  '') (utf16 ''World'')" "utf16 ''  ''" "utf16 ''World''"
             "fixed_env (Inr png)"]
       blank
  have first: "loader_og (fixed_env (Inr png)) (preview_request (utf16 ''  '') (utf16 ''World'')) =
     (Inr bad_request, []) \<and> status bad_request = 400"
    by (simp add: preview_request_simps)
  from C10_trim_then_check_then_cut
         [of "preview_request (utf16 '' Hello '') (utf16 ''World'')" "utf16 '' Hello ''"
             "utf16 ''World''" "fixed_env (Inr png)"]
       solid
  have second: "render_calls (snd (loader_og (fixed_env (Inr png))
       (preview_request (utf16 '' Hello '') (utf16 ''World'')))) =
       [og_markup (utf16 ''https://example.org'') (utf16 ''Hello'') (utf16 ''World'')] \<and>
     \<not> is_whitespace (hd (utf16 ''Hello'')) \<and> \<not> is_whitespace (last (utf16 ''Hello'')) \<and>
     \<not> is_whitespace (hd (utf16 ''World'')) \<and> \<not> is_whitespace (last (utf16 ''World''))"
    by (simp add: preview_request_simps trimmed short)
  from first second blank solid show ?thesis
    by (simp add: preview_request_simps trimmed short)
qed

end
